theory Spec2Isabelle
  imports Main "HOL-Library.Word"
begin

section \<open>The UDP relay of \<^verbatim>\<open>host/examples/network_relay.cpp\<close>\<close>

text \<open>
  The relay owns two UDP sockets. The server socket is bound to a local address and receives
  from any peer; the client socket is connected to one fixed peer. Two threads forward
  datagrams: \<^verbatim>\<open>server_thread\<close> from the server socket to the client socket, and
  \<^verbatim>\<open>client_thread\<close> from the client socket back to the member \<^verbatim>\<open>_endpoint\<close>, which
  \<^verbatim>\<open>server_thread\<close> overwrites with the sender of every datagram it receives.
\<close>

subsection \<open>Data\<close>

type_synonym byte = "8 word"

text \<open>\<^verbatim>\<open>asio::ip::udp::endpoint\<close> for IPv4: an address and a port.\<close>

datatype endpoint = Endpoint (address: "32 word") (port_number: "16 word")

text \<open>
  The default-constructed endpoint: the unspecified address \<^verbatim>\<open>0.0.0.0\<close> and port 0. The
  member \<^verbatim>\<open>_endpoint\<close> is never assigned by the constructor, so this is its value until
  \<^verbatim>\<open>receive_from\<close> first writes it.
\<close>

definition default_endpoint :: endpoint where
  "default_endpoint = Endpoint 0 0"

text \<open>A datagram queued at the server socket: who sent it, and its payload.\<close>

record datagram =
  sender :: endpoint
  payload :: "byte list"

text \<open>\<^verbatim>\<open>static const size_t insane_mtu = 9000;\<close>\<close>

definition insane_mtu :: nat where
  "insane_mtu = 9000"

text \<open>A socket call that fails throws \<^verbatim>\<open>boost::system::system_error\<close>; nothing in the file catches it.\<close>

datatype error = resolve_error | open_error | bind_error | connect_error | option_error
  | receive_error | send_error

text \<open>The two socket members of the relay.\<close>

datatype member = Server_socket | Client_socket

text \<open>
  The calls a thread makes on the sockets and on \<^verbatim>\<open>_endpoint_mutex\<close>, in program order.
  \<open>Select\<close> is the \<^verbatim>\<open>::select\<close> of \<^verbatim>\<open>wait_for_recv_ready\<close>; \<open>Send\<close> carries the bytes
  handed to \<^verbatim>\<open>send\<close>, \<open>Send_to\<close> the bytes and the destination handed to \<^verbatim>\<open>send_to\<close>.
\<close>

datatype call = Select member | Lock | Unlock
  | Receive_from member | Receive member
  | Send member "byte list" | Send_to member "byte list" endpoint

text \<open>
  What the operating system answers during one pass through a loop body.
  \<open>Timeout\<close>: \<^verbatim>\<open>wait_for_recv_ready\<close> returns false, that is, its \<^verbatim>\<open>select\<close> with a
  timeout of 100000 microseconds does not return a positive number.
  \<open>Ready r s\<close>: \<^verbatim>\<open>wait_for_recv_ready\<close> returns true; \<open>r\<close> is what the receive call
  then yields (an exception, or the datagram at the head of the socket's queue) and \<open>s\<close>
  is what the send call after it yields (\<open>None\<close> when it returns, the exception
  otherwise).
\<close>

datatype 'a select = Timeout | Ready "error + 'a" "error option"

text \<open>
  The state the loops work on: the member \<^verbatim>\<open>_endpoint\<close> and the calls made so far, oldest
  first.
\<close>

record relay =
  endpoint :: endpoint
  trace :: "call list"

definition initial_relay :: relay where
  "initial_relay = \<lparr>endpoint = default_endpoint, trace = []\<rparr>"

definition call :: "call \<Rightarrow> relay \<Rightarrow> relay" where
  "call c st = st\<lparr>trace := trace st @ [c]\<rparr>"

subsection \<open>Receiving into the buffer\<close>

text \<open>
  \<^verbatim>\<open>receive(asio::buffer(&buff.front(), buff.size()))\<close> on a datagram socket: the first
  \<open>len\<close> bytes of the datagram overwrite the first \<open>len\<close> bytes of the buffer, where
  \<open>len\<close> is the smaller of the datagram's size and the buffer's; the rest of the datagram is
  discarded, and \<open>len\<close> is returned.
\<close>

definition receive_into :: "byte list \<Rightarrow> byte list \<Rightarrow> nat \<times> byte list" where
  "receive_into bytes buff =
     (let len = min (length bytes) (length buff)
      in (len, take len bytes @ drop len buff))"

subsection \<open>The forwarding loops\<close>

text \<open>
  One pass through the body of the \<^verbatim>\<open>while\<close> of \<^verbatim>\<open>server_thread\<close>: wait for the server
  socket; when it is readable, lock, \<^verbatim>\<open>receive_from\<close> into \<open>buff\<close> and into
  \<^verbatim>\<open>_endpoint\<close>, unlock, and \<^verbatim>\<open>send\<close> the first \<open>len\<close> bytes of \<open>buff\<close> on the
  client socket.
\<close>

definition server_pass ::
  "datagram select \<Rightarrow> byte list \<Rightarrow> relay \<Rightarrow> error + byte list \<times> relay" where
  "server_pass p buff st =
     (let st1 = call (Select Server_socket) st in
      case p of
        Timeout \<Rightarrow> Inr (buff, st1)
      | Ready r s \<Rightarrow>
          (let st2 = call Lock st1 in
           case r of
             Inl e \<Rightarrow> Inl e
           | Inr dg \<Rightarrow>
               (let (len, buff') = receive_into (payload dg) buff;
                    st3 = call (Receive_from Server_socket) (st2\<lparr>endpoint := sender dg\<rparr>);
                    st4 = call Unlock st3
                in case s of
                     Some e \<Rightarrow> Inl e
                   | None \<Rightarrow> Inr (buff', call (Send Client_socket (take len buff')) st4))))"

text \<open>
  One pass through the body of the \<^verbatim>\<open>while\<close> of \<^verbatim>\<open>client_thread\<close>: wait for the client
  socket; when it is readable, \<^verbatim>\<open>receive\<close> into \<open>buff\<close>, lock, and \<^verbatim>\<open>send_to\<close> the
  first \<open>len\<close> bytes of \<open>buff\<close> on the server socket to \<^verbatim>\<open>_endpoint\<close>. The
  \<^verbatim>\<open>lock_guard\<close> unlocks at the end of the block. There is no test of \<^verbatim>\<open>_endpoint\<close>.
\<close>

definition client_pass ::
  "byte list select \<Rightarrow> byte list \<Rightarrow> relay \<Rightarrow> error + byte list \<times> relay" where
  "client_pass p buff st =
     (let st1 = call (Select Client_socket) st in
      case p of
        Timeout \<Rightarrow> Inr (buff, st1)
      | Ready r s \<Rightarrow>
          (case r of
             Inl e \<Rightarrow> Inl e
           | Inr bytes \<Rightarrow>
               (let (len, buff') = receive_into bytes buff;
                    st2 = call (Receive Client_socket) st1;
                    st3 = call Lock st2
                in case s of
                     Some e \<Rightarrow> Inl e
                   | None \<Rightarrow>
                       Inr (buff',
                            call Unlock
                              (call (Send_to Server_socket (take len buff') (endpoint st3)) st3)))))"

text \<open>
  The \<^verbatim>\<open>while (not interruption_requested())\<close> loops. The list holds the answers of the
  operating system in the passes made while \<^verbatim>\<open>interruption_requested()\<close> returns false,
  one element for each pass; the loop is left when the list ends, or by the first exception.
  The \<^verbatim>\<open>notify_one\<close> with which each thread function begins belongs to the start of the
  threads and is not part of these definitions.
\<close>

fun server_loop :: "datagram select list \<Rightarrow> byte list \<Rightarrow> relay \<Rightarrow> error + byte list \<times> relay" where
  "server_loop [] buff st = Inr (buff, st)"
| "server_loop (p # ps) buff st =
     (case server_pass p buff st of
        Inl e \<Rightarrow> Inl e
      | Inr (buff', st') \<Rightarrow> server_loop ps buff' st')"

fun client_loop :: "byte list select list \<Rightarrow> byte list \<Rightarrow> relay \<Rightarrow> error + byte list \<times> relay" where
  "client_loop [] buff st = Inr (buff, st)"
| "client_loop (p # ps) buff st =
     (case client_pass p buff st of
        Inl e \<Rightarrow> Inl e
      | Inr (buff', st') \<Rightarrow> client_loop ps buff' st')"

text \<open>\<^verbatim>\<open>std::vector<char> buff(insane_mtu)\<close>: allocated once, zero-filled, before the loop.\<close>

definition server_thread :: "datagram select list \<Rightarrow> relay \<Rightarrow> error + relay" where
  "server_thread ps st = map_sum id snd (server_loop ps (replicate insane_mtu 0) st)"

definition client_thread :: "byte list select list \<Rightarrow> relay \<Rightarrow> error + relay" where
  "client_thread ps st = map_sum id snd (client_loop ps (replicate insane_mtu 0) st)"

text \<open>
  Both threads of one relay. The threads share only \<^verbatim>\<open>_endpoint\<close>, which
  \<^verbatim>\<open>server_thread\<close> writes inside \<^verbatim>\<open>receive_from\<close> and \<^verbatim>\<open>client_thread\<close> reads for
  \<^verbatim>\<open>send_to\<close>, each with \<^verbatim>\<open>_endpoint_mutex\<close> held; every other effect of a pass is on the
  thread's own buffer and on the network. A run of the two threads is therefore given by the
  order in which their passes take the mutex: a list of turns.
\<close>

datatype turn = Server_turn "datagram select" | Client_turn "byte list select"

fun relay_run ::
  "turn list \<Rightarrow> byte list \<times> byte list \<Rightarrow> relay \<Rightarrow> error + (byte list \<times> byte list) \<times> relay" where
  "relay_run [] bs st = Inr (bs, st)"
| "relay_run (Server_turn p # ts) (sb, cb) st =
     (case server_pass p sb st of
        Inl e \<Rightarrow> Inl e
      | Inr (sb', st') \<Rightarrow> relay_run ts (sb', cb) st')"
| "relay_run (Client_turn p # ts) (sb, cb) st =
     (case client_pass p cb st of
        Inl e \<Rightarrow> Inl e
      | Inr (cb', st') \<Rightarrow> relay_run ts (sb, cb') st')"

text \<open>The relay from its construction on: \<^verbatim>\<open>_endpoint\<close> default-constructed, both buffers fresh.\<close>

definition relay_threads :: "turn list \<Rightarrow> error + relay" where
  "relay_threads ts =
     map_sum id snd
       (relay_run ts (replicate insane_mtu 0, replicate insane_mtu 0) initial_relay)"

subsection \<open>What a run received and what it sent\<close>

text \<open>The datagrams a thread received, in order.\<close>

fun arrivals :: "'a select list \<Rightarrow> 'a list" where
  "arrivals [] = []"
| "arrivals (Ready (Inr d) s # ps) = d # arrivals ps"
| "arrivals (p # ps) = arrivals ps"

text \<open>A pass in which no socket call fails.\<close>

fun undisturbed :: "'a select \<Rightarrow> bool" where
  "undisturbed Timeout = True"
| "undisturbed (Ready (Inr d) None) = True"
| "undisturbed p = False"

text \<open>The senders of the datagrams received on the server socket during a run, in order.\<close>

fun forward_sources :: "turn list \<Rightarrow> endpoint list" where
  "forward_sources [] = []"
| "forward_sources (Server_turn (Ready (Inr dg) s) # ts) = sender dg # forward_sources ts"
| "forward_sources (t # ts) = forward_sources ts"

text \<open>The payloads handed to \<^verbatim>\<open>send\<close> on the client socket, in order.\<close>

fun forwarded :: "call list \<Rightarrow> byte list list" where
  "forwarded [] = []"
| "forwarded (Send Client_socket b # cs) = b # forwarded cs"
| "forwarded (c # cs) = forwarded cs"

text \<open>Everything sent on the server socket, in order: payload and, for \<^verbatim>\<open>send_to\<close>, destination.\<close>

fun returned :: "call list \<Rightarrow> (byte list \<times> endpoint option) list" where
  "returned [] = []"
| "returned (Send_to Server_socket b e # cs) = (b, Some e) # returned cs"
| "returned (Send Server_socket b # cs) = (b, None) # returned cs"
| "returned (c # cs) = returned cs"

text \<open>The socket calls made while \<^verbatim>\<open>_endpoint_mutex\<close> is held; \<open>h\<close> tells whether it is held at the start.\<close>

fun locked_io :: "bool \<Rightarrow> call list \<Rightarrow> call list" where
  "locked_io h [] = []"
| "locked_io h (Lock # cs) = locked_io True cs"
| "locked_io h (Unlock # cs) = locked_io False cs"
| "locked_io h (c # cs) = (if h then c # locked_io h cs else locked_io h cs)"

text \<open>Whether the mutex is held after the calls.\<close>

fun held :: "bool \<Rightarrow> call list \<Rightarrow> bool" where
  "held h [] = h"
| "held h (Lock # cs) = held True cs"
| "held h (Unlock # cs) = held False cs"
| "held h (c # cs) = held h cs"

text \<open>The calls made between two states of one run.\<close>

definition calls_since :: "relay \<Rightarrow> relay \<Rightarrow> call list" where
  "calls_since st st' = drop (length (trace st)) (trace st')"

subsection \<open>Sockets and the operating system\<close>

text \<open>
  The two options \<^verbatim>\<open>resize_buffs\<close> sets. \<^verbatim>\<open>asio::socket_base::receive_buffer_size\<close> and
  \<^verbatim>\<open>send_buffer_size\<close> are integer socket options: the constructor takes an \<^verbatim>\<open>int\<close>
  and the option holds that \<^verbatim>\<open>int\<close>, a signed value of 32 bits.
\<close>

datatype sockopt = receive_buffer_size "32 word" | send_buffer_size "32 word"

text \<open>The size an option asks for: the \<^verbatim>\<open>int\<close> it holds.\<close>

fun option_value :: "sockopt \<Rightarrow> int" where
  "option_value (receive_buffer_size v) = sint v"
| "option_value (send_buffer_size v) = sint v"

text \<open>
  A \<^verbatim>\<open>size_t\<close> of 64 bits passed where an \<^verbatim>\<open>int\<close> is expected is converted: the low 32
  bits are kept.
\<close>

definition int_of_size_t :: "64 word \<Rightarrow> 32 word" where
  "int_of_size_t n = ucast n"

text \<open>
  An open socket: the address it is bound to, the peer it is connected to, and the options
  set on it, oldest first.
\<close>

record socket =
  local_endpoint :: "endpoint option"
  remote_endpoint :: "endpoint option"
  options :: "sockopt list"

text \<open>The open socket handles of the process, and the handle the next \<^verbatim>\<open>open\<close> returns.\<close>

record os =
  handles :: "nat \<rightharpoonup> socket"
  next_handle :: nat

text \<open>
  What the surroundings decide: the endpoints a host and service resolve to (none when
  resolution fails), and which \<^verbatim>\<open>open\<close>, \<^verbatim>\<open>bind\<close>, \<^verbatim>\<open>connect\<close> and
  \<^verbatim>\<open>set_option\<close> calls succeed.
\<close>

record env =
  resolve :: "string \<Rightarrow> string \<Rightarrow> endpoint list"
  may_open :: "nat \<Rightarrow> bool"
  may_bind :: "endpoint \<Rightarrow> bool"
  may_connect :: "endpoint \<Rightarrow> bool"
  may_set :: "nat \<Rightarrow> sockopt \<Rightarrow> bool"

text \<open>
  A call returns its result (or the exception it throws) and the operating system's state
  after it. A call that throws leaves that state as it found it.
\<close>

definition modify :: "nat \<Rightarrow> (socket \<Rightarrow> socket) \<Rightarrow> os \<Rightarrow> os" where
  "modify h f s = s\<lparr>handles := (handles s)(h := map_option f (handles s h))\<rparr>"

definition socket_open :: "env \<Rightarrow> os \<Rightarrow> (error + nat) \<times> os" where
  "socket_open env s =
     (let h = next_handle s in
      if may_open env h
      then (Inr h,
            s\<lparr>handles := (handles s)(h \<mapsto>
                 \<lparr>local_endpoint = None, remote_endpoint = None, options = []\<rparr>),
              next_handle := Suc h\<rparr>)
      else (Inl open_error, s))"

definition socket_bind :: "env \<Rightarrow> nat \<Rightarrow> endpoint \<Rightarrow> os \<Rightarrow> (error + unit) \<times> os" where
  "socket_bind env h ep s =
     (if may_bind env ep
      then (Inr (), modify h (\<lambda>k. k\<lparr>local_endpoint := Some ep\<rparr>) s)
      else (Inl bind_error, s))"

definition socket_connect :: "env \<Rightarrow> nat \<Rightarrow> endpoint \<Rightarrow> os \<Rightarrow> (error + unit) \<times> os" where
  "socket_connect env h ep s =
     (if may_connect env ep
      then (Inr (), modify h (\<lambda>k. k\<lparr>remote_endpoint := Some ep\<rparr>) s)
      else (Inl connect_error, s))"

definition set_option :: "env \<Rightarrow> nat \<Rightarrow> sockopt \<Rightarrow> os \<Rightarrow> (error + unit) \<times> os" where
  "set_option env h opt s =
     (if may_set env h opt
      then (Inr (), modify h (\<lambda>k. k\<lparr>options := options k @ [opt]\<rparr>) s)
      else (Inl option_error, s))"

definition socket_close :: "nat \<Rightarrow> os \<Rightarrow> os" where
  "socket_close h s = s\<lparr>handles := (handles s)(h := None)\<rparr>"

text \<open>
  \<^verbatim>\<open>new asio::ip::udp::socket(_io_context, endpoint)\<close>: the constructor opens the socket and
  binds it. When \<^verbatim>\<open>bind\<close> throws, the half-built socket object is destroyed, which closes
  the handle, before the exception leaves the constructor.
\<close>

definition bound_socket :: "env \<Rightarrow> endpoint \<Rightarrow> os \<Rightarrow> (error + nat) \<times> os" where
  "bound_socket env ep s =
     (case socket_open env s of
        (Inl e, s1) \<Rightarrow> (Inl e, s1)
      | (Inr h, s1) \<Rightarrow>
          (case socket_bind env h ep s1 of
             (Inl e, s2) \<Rightarrow> (Inl e, socket_close h s2)
           | (Inr u, s2) \<Rightarrow> (Inr h, s2)))"

subsection \<open>Construction\<close>

text \<open>
  \<^verbatim>\<open>resize_buffs\<close> tests the \<^verbatim>\<open>size_t\<close> values against 0 and hands them to the options'
  constructors, which converts them to \<^verbatim>\<open>int\<close>.
\<close>

definition resize_buffs :: "env \<Rightarrow> nat \<Rightarrow> 64 word \<Rightarrow> 64 word \<Rightarrow> os \<Rightarrow> (error + unit) \<times> os" where
  "resize_buffs env sock rx_size tx_size s =
     (case (if rx_size \<noteq> 0
            then set_option env sock (receive_buffer_size (int_of_size_t rx_size)) s
            else (Inr (), s)) of
        (Inl e, s1) \<Rightarrow> (Inl e, s1)
      | (Inr u, s1) \<Rightarrow>
          (if tx_size \<noteq> 0
           then set_option env sock (send_buffer_size (int_of_size_t tx_size)) s1
           else (Inr (), s1)))"

text \<open>
  The members of a relay object that hold resources. A socket member is \<open>None\<close> while its
  \<^verbatim>\<open>shared_ptr\<close> is null or its socket is not open, and the open handle otherwise.
\<close>

record udp_relay =
  port :: string
  server_socket :: "nat option"
  client_socket :: "nat option"

text \<open>
  The two blocks of the constructor's body, working on the object under construction.
  The first resolves \<open>server_addr\<close>, creates the bound server socket and resizes its
  buffers; the second resolves \<open>client_addr\<close>, opens the client socket, connects it and
  resizes its buffers. Every call may throw, and no call is inside a \<^verbatim>\<open>try\<close>.
\<close>

definition construct_body ::
  "env \<Rightarrow> string \<Rightarrow> string \<Rightarrow> string \<Rightarrow> 64 word \<Rightarrow> 64 word \<Rightarrow> 64 word \<Rightarrow> 64 word \<Rightarrow>
   udp_relay \<Rightarrow> os \<Rightarrow> (error + unit) \<times> udp_relay \<times> os" where
  "construct_body env server_addr client_addr port'
       server_rx_size server_tx_size client_rx_size client_tx_size this s =
     (case resolve env server_addr port' of
        [] \<Rightarrow> (Inl resolve_error, this, s)
      | ep # eps \<Rightarrow>
     (case bound_socket env ep s of
        (Inl e, s1) \<Rightarrow> (Inl e, this, s1)
      | (Inr h, s1) \<Rightarrow>
     (let this1 = this\<lparr>server_socket := Some h\<rparr> in
      case resize_buffs env h server_rx_size server_tx_size s1 of
        (Inl e, s2) \<Rightarrow> (Inl e, this1, s2)
      | (Inr u, s2) \<Rightarrow>
     (case resolve env client_addr port' of
        [] \<Rightarrow> (Inl resolve_error, this1, s2)
      | ep' # eps' \<Rightarrow>
     (case socket_open env s2 of
        (Inl e, s3) \<Rightarrow> (Inl e, this1, s3)
      | (Inr h', s3) \<Rightarrow>
     (let this2 = this1\<lparr>client_socket := Some h'\<rparr> in
      case socket_connect env h' ep' s3 of
        (Inl e, s4) \<Rightarrow> (Inl e, this2, s4)
      | (Inr u', s4) \<Rightarrow>
     (case resize_buffs env h' client_rx_size client_tx_size s4 of
        (Inl e, s5) \<Rightarrow> (Inl e, this2, s5)
      | (Inr u'', s5) \<Rightarrow> (Inr (), this2, s5))))))))"

text \<open>
  When an exception leaves a constructor, the members built so far are destroyed in the
  reverse order of their declaration (\<^verbatim>\<open>socket_type _server_socket, _client_socket;\<close>).
  Destroying a socket member that holds an open socket closes it.
\<close>

definition release :: "nat option \<Rightarrow> os \<Rightarrow> os" where
  "release m s = (case m of None \<Rightarrow> s | Some h \<Rightarrow> socket_close h s)"

definition destroy_members :: "udp_relay \<Rightarrow> os \<Rightarrow> os" where
  "destroy_members this s = release (server_socket this) (release (client_socket this) s)"

text \<open>
  The constructor, up to the point where it starts the threads: the object, or the
  exception that reaches the caller, and the operating system's state at that moment.
\<close>

definition udp_relay_type ::
  "env \<Rightarrow> string \<Rightarrow> string \<Rightarrow> string \<Rightarrow> 64 word \<Rightarrow> 64 word \<Rightarrow> 64 word \<Rightarrow> 64 word \<Rightarrow>
   os \<Rightarrow> (error + udp_relay) \<times> os" where
  "udp_relay_type env server_addr client_addr port'
       server_rx_size server_tx_size client_rx_size client_tx_size s =
     (case construct_body env server_addr client_addr port'
             server_rx_size server_tx_size client_rx_size client_tx_size
             \<lparr>port = port', server_socket = None, client_socket = None\<rparr> s of
        (Inl e, this, s') \<Rightarrow> (Inl e, destroy_members this s')
      | (Inr u, this, s') \<Rightarrow> (Inr this, s'))"

text \<open>No handle at or above the next one to be handed out is in use.\<close>

definition fresh_above :: "os \<Rightarrow> bool" where
  "fresh_above s = (\<forall>h. next_handle s \<le> h \<longrightarrow> handles s h = None)"

text \<open>A turn in which no socket call fails.\<close>

fun quiet :: "turn \<Rightarrow> bool" where
  "quiet (Server_turn p) = undisturbed p"
| "quiet (Client_turn p) = undisturbed p"

section \<open>Properties of the forwarding loops\<close>

subsection \<open>One pass\<close>

lemma receive_into_length: "length (snd (receive_into bytes buff)) = length buff"
  by (simp add: receive_into_def Let_def)

lemma receive_into_take:
  "take (fst (receive_into bytes buff)) (snd (receive_into bytes buff)) = take (length buff) bytes"
  by (simp add: receive_into_def Let_def min_def)

lemma forwarded_append: "forwarded (xs @ ys) = forwarded xs @ forwarded ys"
  by (induction xs rule: forwarded.induct) simp_all

lemma returned_append: "returned (xs @ ys) = returned xs @ returned ys"
  by (induction xs rule: returned.induct) simp_all

lemma server_pass_timeout:
  "server_pass Timeout buff st = Inr (buff, call (Select Server_socket) st)"
  by (simp add: server_pass_def)

lemma server_pass_ready:
  "server_pass (Ready (Inr dg) None) buff st =
     Inr (snd (receive_into (payload dg) buff),
          st\<lparr>endpoint := sender dg,
             trace := trace st @ [Select Server_socket, Lock, Receive_from Server_socket, Unlock,
                                  Send Client_socket (take (length buff) (payload dg))]\<rparr>)"
  using receive_into_take [of "payload dg" buff]
  by (auto simp: server_pass_def call_def split: prod.splits)

lemma client_pass_timeout:
  "client_pass Timeout buff st = Inr (buff, call (Select Client_socket) st)"
  by (simp add: client_pass_def)

lemma client_pass_ready:
  "client_pass (Ready (Inr bytes) None) buff st =
     Inr (snd (receive_into bytes buff),
          st\<lparr>trace := trace st @ [Select Client_socket, Receive Client_socket, Lock,
                                  Send_to Server_socket (take (length buff) bytes) (endpoint st),
                                  Unlock]\<rparr>)"
  using receive_into_take [of bytes buff]
  by (auto simp: client_pass_def call_def split: prod.splits)

text \<open>A pass in which a socket call fails ends with the exception.\<close>

lemma server_pass_failed: "\<not> undisturbed p \<Longrightarrow> \<exists>e. server_pass p buff st = Inl e"
  by (cases p rule: undisturbed.cases) (auto simp: server_pass_def split: prod.splits sum.splits)

lemma client_pass_failed: "\<not> undisturbed p \<Longrightarrow> \<exists>e. client_pass p buff st = Inl e"
  by (cases p rule: undisturbed.cases) (auto simp: client_pass_def split: prod.splits sum.splits)

subsection \<open>The loops\<close>

lemma server_loop_undisturbed:
  "list_all undisturbed ps \<Longrightarrow>
   \<exists>buff' st'. server_loop ps buff st = Inr (buff', st') \<and> length buff' = length buff \<and>
     forwarded (trace st') =
       forwarded (trace st) @ map (\<lambda>dg. take (length buff) (payload dg)) (arrivals ps) \<and>
     returned (trace st') = returned (trace st)"
proof (induction ps arbitrary: buff st)
  case Nil
  then show ?case by simp
next
  case (Cons p ps)
  then have u: "undisturbed p" and rest: "list_all undisturbed ps" by simp_all
  from u show ?case
  proof (cases p rule: undisturbed.cases)
    case 1
    with Cons.IH [OF rest, of buff "call (Select Server_socket) st"] show ?thesis
      by (auto simp: server_pass_timeout call_def forwarded_append returned_append)
  next
    case (2 dg)
    let ?b = "snd (receive_into (payload dg) buff)"
    let ?st = "st\<lparr>endpoint := sender dg,
             trace := trace st @ [Select Server_socket, Lock, Receive_from Server_socket, Unlock,
                                  Send Client_socket (take (length buff) (payload dg))]\<rparr>"
    from Cons.IH [OF rest, of ?b ?st] 2 show ?thesis
      by (auto simp: server_pass_ready receive_into_length forwarded_append returned_append)
  qed (use u in simp_all)
qed

lemma client_loop_undisturbed:
  "list_all undisturbed ps \<Longrightarrow>
   \<exists>buff' st'. client_loop ps buff st = Inr (buff', st') \<and> length buff' = length buff \<and>
     endpoint st' = endpoint st \<and>
     forwarded (trace st') = forwarded (trace st) \<and>
     returned (trace st') =
       returned (trace st) @ map (\<lambda>b. (take (length buff) b, Some (endpoint st))) (arrivals ps)"
proof (induction ps arbitrary: buff st)
  case Nil
  then show ?case by simp
next
  case (Cons p ps)
  then have u: "undisturbed p" and rest: "list_all undisturbed ps" by simp_all
  from u show ?case
  proof (cases p rule: undisturbed.cases)
    case 1
    with Cons.IH [OF rest, of buff "call (Select Client_socket) st"] show ?thesis
      by (auto simp: client_pass_timeout call_def forwarded_append returned_append)
  next
    case (2 bytes)
    let ?b = "snd (receive_into bytes buff)"
    let ?st = "st\<lparr>trace := trace st @ [Select Client_socket, Receive Client_socket, Lock,
                                  Send_to Server_socket (take (length buff) bytes) (endpoint st),
                                  Unlock]\<rparr>"
    from Cons.IH [OF rest, of ?b ?st] 2 show ?thesis
      by (auto simp: client_pass_ready receive_into_length forwarded_append returned_append)
  qed (use u in simp_all)
qed

subsection \<open>Both threads\<close>

lemma relay_run_append:
  "relay_run (ts @ us) bs st =
     (case relay_run ts bs st of Inl e \<Rightarrow> Inl e | Inr (bs', st') \<Rightarrow> relay_run us bs' st')"
  by (induction ts bs st rule: relay_run.induct) (auto split: sum.splits)

text \<open>
  After a run, \<^verbatim>\<open>_endpoint\<close> is the sender of the last datagram received on the server
  socket, or still what it was when there was none; the buffers keep their size.
\<close>

lemma relay_run_endpoint:
  "relay_run ts (sb, cb) st = Inr ((sb', cb'), st') \<Longrightarrow>
   length sb' = length sb \<and> length cb' = length cb \<and>
   endpoint st' = (if forward_sources ts = [] then endpoint st else last (forward_sources ts))"
proof (induction ts "(sb, cb)" st arbitrary: sb cb rule: relay_run.induct)
  case (1 st)
  then show ?case by simp
next
  case (2 p ts sb cb st)
  show ?case
  proof (cases "undisturbed p")
    case False
    from server_pass_failed [OF this, of sb st] "2.prems" show ?thesis by auto
  next
    case True
    then show ?thesis
    proof (cases p rule: undisturbed.cases)
      case 1
      with 2 show ?thesis by (auto simp: server_pass_timeout call_def)
    next
      case (2 dg)
      with "2.prems" "2.hyps" show ?thesis
        by (auto simp: server_pass_ready receive_into_length)
    qed (use True in simp_all)
  qed
next
  case (3 p ts sb cb st)
  show ?case
  proof (cases "undisturbed p")
    case False
    from client_pass_failed [OF this, of cb st] "3.prems" show ?thesis by auto
  next
    case True
    then show ?thesis
    proof (cases p rule: undisturbed.cases)
      case 1
      with 3 show ?thesis by (auto simp: client_pass_timeout call_def)
    next
      case (2 bytes)
      with "3.prems" "3.hyps" show ?thesis
        by (auto simp: client_pass_ready receive_into_length)
    qed (use True in simp_all)
  qed
qed

text \<open>A run in which no socket call fails does not end in an exception.\<close>

lemma relay_run_quiet:
  "list_all quiet ts \<Longrightarrow> \<exists>bs' st'. relay_run ts bs st = Inr (bs', st')"
proof (induction ts bs st rule: relay_run.induct)
  case (1 bs st)
  then show ?case by simp
next
  case (2 p ts sb cb st)
  then have u: "undisturbed p" and rest: "list_all quiet ts" by simp_all
  from u show ?case
  proof (cases p rule: undisturbed.cases)
    case 1
    with "2.IH" [OF _ _ rest] show ?thesis by (simp add: server_pass_timeout)
  next
    case (2 dg)
    with "2.IH" [OF _ _ rest] show ?thesis by (simp add: server_pass_ready)
  qed (use u in simp_all)
next
  case (3 p ts sb cb st)
  then have u: "undisturbed p" and rest: "list_all quiet ts" by simp_all
  from u show ?case
  proof (cases p rule: undisturbed.cases)
    case 1
    with "3.IH" [OF _ _ rest] show ?thesis by (simp add: client_pass_timeout)
  next
    case (2 bytes)
    with "3.IH" [OF _ _ rest] show ?thesis by (simp add: client_pass_ready)
  qed (use u in simp_all)
qed

lemma relay_threads_quiet:
  assumes "list_all quiet ts"
  obtains st where "relay_threads ts = Inr st"
  using relay_run_quiet [OF assms, of "(replicate insane_mtu 0, replicate insane_mtu 0)" initial_relay]
  by (auto simp: relay_threads_def)

lemma relay_threads_Inr:
  assumes "relay_threads ts = Inr st"
  obtains sb cb where
    "relay_run ts (replicate insane_mtu 0, replicate insane_mtu 0) initial_relay = Inr ((sb, cb), st)"
    "length sb = insane_mtu" "length cb = insane_mtu"
    "endpoint st = (if forward_sources ts = [] then default_endpoint else last (forward_sources ts))"
proof -
  from assms obtain sb cb where
    r: "relay_run ts (replicate insane_mtu 0, replicate insane_mtu 0) initial_relay = Inr ((sb, cb), st)"
    by (cases "relay_run ts (replicate insane_mtu 0, replicate insane_mtu 0) initial_relay")
       (auto simp: relay_threads_def)
  from relay_run_endpoint [OF r] have
    "length sb = insane_mtu" "length cb = insane_mtu"
    "endpoint st = (if forward_sources ts = [] then default_endpoint else last (forward_sources ts))"
    by (simp_all add: initial_relay_def)
  with r show thesis by (rule that)
qed

text \<open>
  One more pass of \<^verbatim>\<open>client_thread\<close> with a datagram, after any run: \<^verbatim>\<open>send_to\<close> is
  called with the first \<open>insane_mtu\<close> bytes and with \<^verbatim>\<open>_endpoint\<close> as it stands; when
  \<^verbatim>\<open>send_to\<close> throws, the exception ends the run.
\<close>

lemma relay_threads_then_client:
  assumes "relay_threads ts = Inr st"
  shows "relay_threads (ts @ [Client_turn (Ready (Inr bytes) None)]) =
           Inr (st\<lparr>trace := trace st @ [Select Client_socket, Receive Client_socket, Lock,
                   Send_to Server_socket (take insane_mtu bytes)
                     (if forward_sources ts = [] then default_endpoint
                      else last (forward_sources ts)),
                   Unlock]\<rparr>)"
    and "relay_threads (ts @ [Client_turn (Ready (Inr bytes) (Some e))]) = Inl e"
proof -
  from assms obtain sb cb where
    r: "relay_run ts (replicate insane_mtu 0, replicate insane_mtu 0) initial_relay = Inr ((sb, cb), st)"
    and l: "length cb = insane_mtu"
    and e: "endpoint st = (if forward_sources ts = [] then default_endpoint else last (forward_sources ts))"
    by (rule relay_threads_Inr)
  show "relay_threads (ts @ [Client_turn (Ready (Inr bytes) None)]) =
           Inr (st\<lparr>trace := trace st @ [Select Client_socket, Receive Client_socket, Lock,
                   Send_to Server_socket (take insane_mtu bytes)
                     (if forward_sources ts = [] then default_endpoint
                      else last (forward_sources ts)),
                   Unlock]\<rparr>)"
    using r l e by (simp add: relay_threads_def relay_run_append client_pass_ready)
  show "relay_threads (ts @ [Client_turn (Ready (Inr bytes) (Some e))]) = Inl e"
    using r by (simp add: relay_threads_def relay_run_append client_pass_def split: prod.splits)
qed

section \<open>The claims about the forwarding loops\<close>

subsection \<open>Reverse traffic before any forward traffic\<close>

text \<open>
  Claim C1 says that a datagram that comes back on the client socket before any datagram was
  received on the server socket is dropped without an error, and that the loop goes on. The
  code has no such case: \<^verbatim>\<open>client_thread\<close> calls \<^verbatim>\<open>send_to\<close> with \<^verbatim>\<open>_endpoint\<close>
  whatever it holds, and nothing catches what \<^verbatim>\<open>send_to\<close> throws. Right after
  construction \<^verbatim>\<open>_endpoint\<close> is the default-constructed endpoint, with port 0, and the
  operating system refuses to send there: with one datagram \<open>[1, 2, 3]\<close> on the client
  socket and \<^verbatim>\<open>send_to\<close> throwing, the run ends with that exception.
\<close>

theorem reverse_before_forward_send_throws:
  "relay_threads [Client_turn (Ready (Inr [1, 2, 3]) (Some send_error))] = Inl send_error"
  by (simp add: relay_threads_def client_pass_def initial_relay_def split: prod.splits)

text \<open>
  Claim C1, as the code has it. \<^verbatim>\<open>client_thread\<close> receives a datagram before it takes
  the mutex, and reads \<^verbatim>\<open>_endpoint\<close> only once it holds the mutex; a turn stands for the
  moment its pass takes the mutex. So ``before any forward datagram'' is meant at that
  moment: take any run of the two threads in which no socket call fails and in which no
  datagram has been received on the server socket by the time \<^verbatim>\<open>client_thread\<close> takes
  the mutex for a datagram it has received. The run up to there does not end in an
  exception, and \<^verbatim>\<open>client_thread\<close> does not skip the send: it calls \<^verbatim>\<open>send_to\<close> on the
  server socket with the first \<open>insane_mtu\<close> bytes of the datagram and the
  default-constructed endpoint. When \<^verbatim>\<open>send_to\<close> throws, the exception ends the loop;
  only when it returns does the loop go on. (A datagram received earlier but sent after a
  forward datagram was recorded goes to the recorded sender: that is the case of claim C4.)
\<close>

theorem reverse_before_forward_sent_to_default_endpoint:
  assumes "list_all quiet ts" and "forward_sources ts = []"
  shows "\<exists>st. relay_threads ts = Inr st \<and>
           relay_threads (ts @ [Client_turn (Ready (Inr bytes) None)]) =
             Inr (st\<lparr>trace := trace st @ [Select Client_socket, Receive Client_socket, Lock,
                     Send_to Server_socket (take insane_mtu bytes) default_endpoint, Unlock]\<rparr>) \<and>
           relay_threads (ts @ [Client_turn (Ready (Inr bytes) (Some e))]) = Inl e"
proof -
  from assms(1) obtain st where r: "relay_threads ts = Inr st"
    by (rule relay_threads_quiet)
  from relay_threads_then_client(1) [OF r, of bytes]
    relay_threads_then_client(2) [OF r, of bytes e] assms(2) r
  show ?thesis
    by simp
qed

theorem reverse_before_forward_sent_to_default_endpoint_witness:
  "list_all quiet [Server_turn Timeout, Client_turn Timeout] \<and>
   forward_sources [Server_turn Timeout, Client_turn Timeout] = [] \<and>
   relay_threads ([Server_turn Timeout, Client_turn Timeout] @
       [Client_turn (Ready (Inr [1, 2, 3]) None)]) =
     Inr \<lparr>endpoint = default_endpoint,
          trace = [Select Server_socket, Select Client_socket,
                   Select Client_socket, Receive Client_socket, Lock,
                   Send_to Server_socket [1, 2, 3] default_endpoint, Unlock]\<rparr> \<and>
   relay_threads ([Server_turn Timeout, Client_turn Timeout] @
       [Client_turn (Ready (Inr [1, 2, 3]) (Some send_error))]) = Inl send_error"
proof -
  have r: "relay_threads [Server_turn Timeout, Client_turn Timeout] =
     Inr \<lparr>endpoint = default_endpoint, trace = [Select Server_socket, Select Client_socket]\<rparr>"
    by (simp add: relay_threads_def server_pass_timeout client_pass_timeout call_def
        initial_relay_def)
  have q: "list_all quiet [Server_turn Timeout, Client_turn Timeout]" by simp
  have f: "forward_sources [Server_turn Timeout, Client_turn Timeout] = []" by simp
  from reverse_before_forward_sent_to_default_endpoint [OF q f, of "[1, 2, 3]" send_error] r q f
  show ?thesis
    by (simp add: insane_mtu_def)
qed

subsection \<open>The scope of the lock\<close>

text \<open>
  Claim C2 says that the lock is never held across a socket call. In the code it is: one
  datagram on the server socket makes \<^verbatim>\<open>server_thread\<close> call \<^verbatim>\<open>receive_from\<close> with
  the lock held, and one datagram on the client socket makes \<^verbatim>\<open>client_thread\<close> call
  \<^verbatim>\<open>send_to\<close> with the lock held.
\<close>

theorem lock_held_across_io_counterexample:
  "map_sum id (locked_io False \<circ> trace)
     (server_thread [Ready (Inr \<lparr>sender = Endpoint 10 1000, payload = [1]\<rparr>) None]
        initial_relay) = Inr [Receive_from Server_socket] \<and>
   map_sum id (locked_io False \<circ> trace)
     (client_thread [Ready (Inr [2]) None] initial_relay) =
     Inr [Send_to Server_socket [2] default_endpoint]"
  by (simp add: server_thread_def client_thread_def server_pass_ready client_pass_ready
      initial_relay_def insane_mtu_def)

text \<open>
  Claim C2, as the code has it. In a pass of \<^verbatim>\<open>server_thread\<close> that completes, the only
  socket call made with the lock held is the \<^verbatim>\<open>receive_from\<close> that writes the endpoint;
  the wait and the \<^verbatim>\<open>send\<close> are made without it. In a pass of \<^verbatim>\<open>client_thread\<close> that
  completes, the only socket call made with the lock held is the \<^verbatim>\<open>send_to\<close> that reads
  the endpoint; the wait and the \<^verbatim>\<open>receive\<close> are made without it. Neither loop holds the
  lock at the end of a pass.
\<close>

theorem lock_held_across_endpoint_io_only:
  "(server_pass p buff st = Inr (buff', st') \<longrightarrow>
      locked_io False (calls_since st st') =
        (case p of Timeout \<Rightarrow> [] | Ready r s \<Rightarrow> [Receive_from Server_socket]) \<and>
      \<not> held False (calls_since st st')) \<and>
   (client_pass q buff st = Inr (buff'', st'') \<longrightarrow>
      locked_io False (calls_since st st'') =
        (case q of
           Timeout \<Rightarrow> []
         | Ready r s \<Rightarrow>
             (case r of
                Inl e \<Rightarrow> []
              | Inr bytes \<Rightarrow>
                  [Send_to Server_socket (take (length buff) bytes) (endpoint st)])) \<and>
      \<not> held False (calls_since st st''))"
proof (intro conjI impI)
  assume a: "server_pass p buff st = Inr (buff', st')"
  then have u: "undisturbed p" using server_pass_failed [of p buff st] by auto
  from u a show "locked_io False (calls_since st st') =
        (case p of Timeout \<Rightarrow> [] | Ready r s \<Rightarrow> [Receive_from Server_socket])"
    by (cases p rule: undisturbed.cases)
       (auto simp: server_pass_timeout server_pass_ready call_def calls_since_def)
  from u a show "\<not> held False (calls_since st st')"
    by (cases p rule: undisturbed.cases)
       (auto simp: server_pass_timeout server_pass_ready call_def calls_since_def)
next
  assume a: "client_pass q buff st = Inr (buff'', st'')"
  then have u: "undisturbed q" using client_pass_failed [of q buff st] by auto
  from u a show "locked_io False (calls_since st st'') =
        (case q of
           Timeout \<Rightarrow> []
         | Ready r s \<Rightarrow>
             (case r of
                Inl e \<Rightarrow> []
              | Inr bytes \<Rightarrow>
                  [Send_to Server_socket (take (length buff) bytes) (endpoint st)]))"
    by (cases q rule: undisturbed.cases)
       (auto simp: client_pass_timeout client_pass_ready call_def calls_since_def)
  from u a show "\<not> held False (calls_since st st'')"
    by (cases q rule: undisturbed.cases)
       (auto simp: client_pass_timeout client_pass_ready call_def calls_since_def)
qed

theorem lock_held_across_endpoint_io_only_witness:
  "server_pass (Ready (Inr \<lparr>sender = Endpoint 10 1000, payload = [1]\<rparr>) None) [0, 0, 0]
     initial_relay =
     Inr ([1, 0, 0],
          \<lparr>endpoint = Endpoint 10 1000,
           trace = [Select Server_socket, Lock, Receive_from Server_socket, Unlock,
                    Send Client_socket [1]]\<rparr>) \<and>
   locked_io False
     [Select Server_socket, Lock, Receive_from Server_socket, Unlock, Send Client_socket [1]] =
     [Receive_from Server_socket] \<and>
   client_pass (Ready (Inr [2, 3]) None) [0, 0, 0] initial_relay =
     Inr ([2, 3, 0],
          \<lparr>endpoint = default_endpoint,
           trace = [Select Client_socket, Receive Client_socket, Lock,
                    Send_to Server_socket [2, 3] default_endpoint, Unlock]\<rparr>) \<and>
   locked_io False
     [Select Client_socket, Receive Client_socket, Lock,
      Send_to Server_socket [2, 3] default_endpoint, Unlock] =
     [Send_to Server_socket [2, 3] default_endpoint]"
proof -
  have s: "server_pass (Ready (Inr \<lparr>sender = Endpoint 10 1000, payload = [1]\<rparr>) None) [0, 0, 0]
     initial_relay =
     Inr ([1, 0, 0],
          \<lparr>endpoint = Endpoint 10 1000,
           trace = [Select Server_socket, Lock, Receive_from Server_socket, Unlock,
                    Send Client_socket [1]]\<rparr>)"
    by (simp add: server_pass_ready receive_into_def initial_relay_def)
  have c: "client_pass (Ready (Inr [2, 3]) None) [0, 0, 0] initial_relay =
     Inr ([2, 3, 0],
          \<lparr>endpoint = default_endpoint,
           trace = [Select Client_socket, Receive Client_socket, Lock,
                    Send_to Server_socket [2, 3] default_endpoint, Unlock]\<rparr>)"
    by (simp add: client_pass_ready receive_into_def initial_relay_def)
  from lock_held_across_endpoint_io_only
    [of "Ready (Inr \<lparr>sender = Endpoint 10 1000, payload = [1]\<rparr>) None" "[0, 0, 0]" initial_relay
       "[1, 0, 0]"
       "\<lparr>endpoint = Endpoint 10 1000,
         trace = [Select Server_socket, Lock, Receive_from Server_socket, Unlock,
                  Send Client_socket [1]]\<rparr>"
       "Ready (Inr [2, 3]) None" "[2, 3, 0]"
       "\<lparr>endpoint = default_endpoint,
         trace = [Select Client_socket, Receive Client_socket, Lock,
                  Send_to Server_socket [2, 3] default_endpoint, Unlock]\<rparr>"] s c
  show ?thesis
    by (simp add: calls_since_def initial_relay_def)
qed

subsection \<open>The forward path\<close>

text \<open>
  Claim C3 says that every datagram delivered to the server socket is forwarded with its
  payload unchanged and of the same length. A datagram of 9001 bytes is forwarded as its
  first 9000 bytes.
\<close>

theorem server_thread_truncates_counterexample:
  "map_sum id (forwarded \<circ> trace)
     (server_thread [Ready (Inr \<lparr>sender = Endpoint 10 1000, payload = replicate 9001 7\<rparr>) None]
        initial_relay) = Inr [replicate 9000 7] \<and>
   map_sum id (forwarded \<circ> trace)
     (server_thread [Ready (Inr \<lparr>sender = Endpoint 10 1000, payload = replicate 9001 7\<rparr>) None]
        initial_relay) \<noteq> Inr [replicate 9001 7]"
  by (simp add: server_thread_def server_pass_ready initial_relay_def insane_mtu_def)

text \<open>
  Claim C3, as the code has it. For every sequence of passes of \<^verbatim>\<open>server_thread\<close> in
  which no socket call fails and every datagram delivered to the server socket has at most
  9000 bytes, the loop does not end in an exception and hands the payloads of the datagrams
  to \<^verbatim>\<open>send\<close> on the client socket unchanged, one \<^verbatim>\<open>send\<close> for each datagram, in the
  order in which the socket delivered them.
\<close>

theorem server_thread_forwards_unchanged:
  assumes "list_all undisturbed ps"
    and "list_all (\<lambda>dg. length (payload dg) \<le> 9000) (arrivals ps)"
  shows "\<exists>st'. server_thread ps st = Inr st' \<and>
           forwarded (trace st') = forwarded (trace st) @ map payload (arrivals ps)"
proof -
  from server_loop_undisturbed [OF assms(1), of "replicate insane_mtu 0" st]
  obtain buff' st' where
    l: "server_loop ps (replicate insane_mtu 0) st = Inr (buff', st')"
    and f: "forwarded (trace st') =
       forwarded (trace st) @ map (\<lambda>dg. take insane_mtu (payload dg)) (arrivals ps)"
    by auto
  from assms(2)
  have "map (\<lambda>dg. take insane_mtu (payload dg)) (arrivals ps) = map payload (arrivals ps)"
    by (simp add: insane_mtu_def list_all_iff)
  with l f show ?thesis by (simp add: server_thread_def)
qed

theorem server_thread_forwards_unchanged_witness:
  "list_all undisturbed
     [Ready (Inr \<lparr>sender = Endpoint 10 1000, payload = [1, 2, 3]\<rparr>) None, Timeout,
      Ready (Inr \<lparr>sender = Endpoint 11 1001, payload = [4]\<rparr>) None] \<and>
   list_all (\<lambda>dg. length (payload dg) \<le> 9000)
     (arrivals
       [Ready (Inr \<lparr>sender = Endpoint 10 1000, payload = [1, 2, 3]\<rparr>) None, Timeout,
        Ready (Inr \<lparr>sender = Endpoint 11 1001, payload = [4]\<rparr>) None]) \<and>
   (\<exists>st'. server_thread
      [Ready (Inr \<lparr>sender = Endpoint 10 1000, payload = [1, 2, 3]\<rparr>) None, Timeout,
       Ready (Inr \<lparr>sender = Endpoint 11 1001, payload = [4]\<rparr>) None] initial_relay = Inr st' \<and>
      forwarded (trace st') = [[1, 2, 3], [4]])"
  using server_thread_forwards_unchanged
    [of "[Ready (Inr \<lparr>sender = Endpoint 10 1000, payload = [1, 2, 3]\<rparr>) None, Timeout,
          Ready (Inr \<lparr>sender = Endpoint 11 1001, payload = [4]\<rparr>) None]" initial_relay]
  by (simp add: initial_relay_def)

subsection \<open>The reverse path\<close>

text \<open>
  Claim C4 says that a datagram received on the client socket after forward traffic is sent
  unchanged to the latest forward source. A datagram of 9001 bytes is sent there as its
  first 9000 bytes.
\<close>

theorem client_thread_truncates_counterexample:
  "map_sum id (returned \<circ> trace)
     (relay_threads
        [Server_turn (Ready (Inr \<lparr>sender = Endpoint 10 1000, payload = [1]\<rparr>) None),
         Client_turn (Ready (Inr (replicate 9001 7)) None)]) =
   Inr [(replicate 9000 7, Some (Endpoint 10 1000))] \<and>
   map_sum id (returned \<circ> trace)
     (relay_threads
        [Server_turn (Ready (Inr \<lparr>sender = Endpoint 10 1000, payload = [1]\<rparr>) None),
         Client_turn (Ready (Inr (replicate 9001 7)) None)]) \<noteq>
   Inr [(replicate 9001 7, Some (Endpoint 10 1000))]"
  by (simp add: relay_threads_def server_pass_ready client_pass_ready receive_into_length
      initial_relay_def insane_mtu_def)

text \<open>
  Claim C4, as the code has it. Take any run of the two threads in which no socket call
  fails and at least one datagram is received on the server socket. The run does not end in
  an exception, and a datagram received on the client socket next is handed to
  \<^verbatim>\<open>send_to\<close> on the server socket with the sender of the last datagram received on the
  server socket as destination: unchanged when it has at most 9000 bytes, and as its first
  9000 bytes otherwise.
\<close>

theorem client_thread_returns_to_latest_source:
  assumes "list_all quiet ts" and "forward_sources ts \<noteq> []"
  shows "\<exists>st st'. relay_threads ts = Inr st \<and>
           relay_threads (ts @ [Client_turn (Ready (Inr bytes) None)]) = Inr st' \<and>
           returned (trace st') =
             returned (trace st) @
               [(if length bytes \<le> 9000 then bytes else take 9000 bytes,
                 Some (last (forward_sources ts)))]"
proof -
  from assms(1) obtain st where r: "relay_threads ts = Inr st"
    by (rule relay_threads_quiet)
  from relay_threads_then_client(1) [OF r, of bytes] assms(2) r show ?thesis
    by (simp add: returned_append insane_mtu_def)
qed

theorem client_thread_returns_to_latest_source_witness:
  "list_all quiet
     [Server_turn (Ready (Inr \<lparr>sender = Endpoint 10 1000, payload = [1]\<rparr>) None),
      Server_turn (Ready (Inr \<lparr>sender = Endpoint 11 2000, payload = [2]\<rparr>) None)] \<and>
   forward_sources
     [Server_turn (Ready (Inr \<lparr>sender = Endpoint 10 1000, payload = [1]\<rparr>) None),
      Server_turn (Ready (Inr \<lparr>sender = Endpoint 11 2000, payload = [2]\<rparr>) None)] \<noteq> [] \<and>
   (\<exists>st'. relay_threads
      ([Server_turn (Ready (Inr \<lparr>sender = Endpoint 10 1000, payload = [1]\<rparr>) None),
        Server_turn (Ready (Inr \<lparr>sender = Endpoint 11 2000, payload = [2]\<rparr>) None)] @
       [Client_turn (Ready (Inr [9, 9]) None)]) = Inr st' \<and>
      returned (trace st') = [([9, 9], Some (Endpoint 11 2000))])"
proof -
  let ?ts = "[Server_turn (Ready (Inr \<lparr>sender = Endpoint 10 1000, payload = [1]\<rparr>) None),
      Server_turn (Ready (Inr \<lparr>sender = Endpoint 11 2000, payload = [2]\<rparr>) None)]"
  have r: "relay_threads ?ts =
     Inr \<lparr>endpoint = Endpoint 11 2000,
          trace = [Select Server_socket, Lock, Receive_from Server_socket, Unlock,
                   Send Client_socket [1],
                   Select Server_socket, Lock, Receive_from Server_socket, Unlock,
                   Send Client_socket [2]]\<rparr>"
    by (simp add: relay_threads_def server_pass_ready receive_into_length initial_relay_def
        insane_mtu_def)
  have q: "list_all quiet ?ts" by simp
  have f: "forward_sources ?ts \<noteq> []" by simp
  from client_thread_returns_to_latest_source [OF q f, of "[9, 9]"] r q f show ?thesis
    by auto
qed

subsection \<open>The size of what is forwarded\<close>

text \<open>
  Claim C10. Each loop receives into its buffer of \<open>insane_mtu\<close> = 9000 bytes, made once
  before the loop, and sends the first \<open>len\<close> bytes of it, where \<open>len\<close> is what the
  receive call returned. So in every sequence of passes in which no socket call fails,
  \<^verbatim>\<open>server_thread\<close> forwards of each datagram exactly its first 9000 bytes (all of it when
  it is no longer), and \<^verbatim>\<open>client_thread\<close> does the same in the other direction: a
  datagram larger than 9000 bytes is forwarded truncated to 9000 bytes.
\<close>

theorem forwarded_at_most_insane_mtu:
  assumes "list_all undisturbed ps" and "list_all undisturbed qs"
  shows "(\<exists>st'. server_thread ps st = Inr st' \<and>
            forwarded (trace st') =
              forwarded (trace st) @ map (\<lambda>dg. take 9000 (payload dg)) (arrivals ps)) \<and>
         (\<exists>st'. client_thread qs st = Inr st' \<and>
            returned (trace st') =
              returned (trace st) @ map (\<lambda>b. (take 9000 b, Some (endpoint st))) (arrivals qs))"
proof
  from server_loop_undisturbed [OF assms(1), of "replicate insane_mtu 0" st]
  show "\<exists>st'. server_thread ps st = Inr st' \<and>
            forwarded (trace st') =
              forwarded (trace st) @ map (\<lambda>dg. take 9000 (payload dg)) (arrivals ps)"
    by (auto simp: server_thread_def insane_mtu_def)
  from client_loop_undisturbed [OF assms(2), of "replicate insane_mtu 0" st]
  show "\<exists>st'. client_thread qs st = Inr st' \<and>
            returned (trace st') =
              returned (trace st) @ map (\<lambda>b. (take 9000 b, Some (endpoint st))) (arrivals qs)"
    by (auto simp: client_thread_def insane_mtu_def)
qed

theorem forwarded_at_most_insane_mtu_witness:
  "list_all undisturbed
     [Ready (Inr \<lparr>sender = Endpoint 10 1000, payload = replicate 9001 7\<rparr>) None] \<and>
   list_all undisturbed [Timeout, Ready (Inr (replicate 9500 8)) None] \<and>
   (\<exists>st'. server_thread
      [Ready (Inr \<lparr>sender = Endpoint 10 1000, payload = replicate 9001 7\<rparr>) None]
      initial_relay = Inr st' \<and> forwarded (trace st') = [replicate 9000 7]) \<and>
   (\<exists>st'. client_thread [Timeout, Ready (Inr (replicate 9500 8)) None] initial_relay = Inr st' \<and>
      returned (trace st') = [(replicate 9000 8, Some default_endpoint)])"
  using forwarded_at_most_insane_mtu
    [of "[Ready (Inr \<lparr>sender = Endpoint 10 1000, payload = replicate 9001 7\<rparr>) None]"
      "[Timeout, Ready (Inr (replicate 9500 8)) None]" initial_relay]
  by (simp add: initial_relay_def)

section \<open>Properties of construction\<close>

subsection \<open>The socket calls\<close>

text \<open>A size below \<open>2 ^ 31\<close> survives the conversion to \<^verbatim>\<open>int\<close>.\<close>

lemma int_of_size_t_exact:
  assumes "n < 2 ^ 31"
  shows "sint (int_of_size_t n) = uint n"
proof -
  from assms have u: "uint n < 2 ^ 31"
    by (simp add: word_less_def)
  have p: "0 \<le> uint n" by simp
  from u have v: "uint n < 2 ^ 32" by simp
  have "uint (ucast n :: 32 word) = take_bit 32 (uint n)"
    by (simp add: unsigned_ucast_eq)
  also from p v have "\<dots> = uint n"
    by (simp add: take_bit_int_eq_self)
  finally have e: "uint (ucast n :: 32 word) = uint n" .
  have "sint (ucast n :: 32 word) = signed_take_bit 31 (uint (ucast n :: 32 word))"
    by (simp add: sint_uint)
  also have "\<dots> = signed_take_bit 31 (uint n)"
    by (simp only: e)
  also have "\<dots> = uint n"
  proof (rule signed_take_bit_int_eq_self)
    have "- (2 ^ 31) \<le> (0::int)" by simp
    also have "0 \<le> uint n" by simp
    finally show "- (2 ^ 31) \<le> uint n" .
    from u show "uint n < 2 ^ 31" .
  qed
  finally show ?thesis by (simp add: int_of_size_t_def)
qed

lemma modify_handles:
  "handles (modify h f s) k = (if k = h then map_option f (handles s h) else handles s k)"
  by (simp add: modify_def)

lemma modify_next: "next_handle (modify h f s) = next_handle s"
  by (simp add: modify_def)

lemma fresh_aboveD: "fresh_above s \<Longrightarrow> next_handle s \<le> h \<Longrightarrow> handles s h = None"
  by (simp add: fresh_above_def)

lemma set_option_other:
  "set_option env h opt s = (r, s') \<Longrightarrow>
   next_handle s' = next_handle s \<and> (\<forall>k. k \<noteq> h \<longrightarrow> handles s' k = handles s k)"
  by (auto simp: set_option_def modify_handles modify_next split: if_splits)

lemma resize_buffs_other:
  "resize_buffs env h rx tx s = (r, s') \<Longrightarrow>
   next_handle s' = next_handle s \<and> (\<forall>k. k \<noteq> h \<longrightarrow> handles s' k = handles s k)"
  by (auto simp: resize_buffs_def split: if_splits prod.splits sum.splits dest!: set_option_other)

text \<open>
  What \<^verbatim>\<open>resize_buffs\<close> sets when it returns: for each size that is not 0 the option built
  from that size converted to \<^verbatim>\<open>int\<close>, receive before send, and nothing for a size of 0.
\<close>

lemma resize_buffs_options:
  "resize_buffs env h rx tx s = (Inr u, s') \<Longrightarrow> handles s h = Some k \<Longrightarrow>
   handles s' h = Some (k\<lparr>options := options k
       @ (if rx \<noteq> 0 then [receive_buffer_size (int_of_size_t rx)] else [])
       @ (if tx \<noteq> 0 then [send_buffer_size (int_of_size_t tx)] else [])\<rparr>)"
  by (auto simp: resize_buffs_def set_option_def modify_handles
      split: if_splits prod.splits sum.splits)

lemma socket_open_Inr:
  "socket_open env s = (Inr h, s') \<Longrightarrow>
   h = next_handle s \<and> next_handle s' = Suc h \<and>
   handles s' =
     (handles s)(h \<mapsto> \<lparr>local_endpoint = None, remote_endpoint = None, options = []\<rparr>)"
  by (auto simp: socket_open_def Let_def split: if_splits)

lemma socket_open_Inl: "socket_open env s = (Inl e, s') \<Longrightarrow> s' = s \<and> e = open_error"
  by (auto simp: socket_open_def Let_def split: if_splits)

lemma bound_socket_Inr:
  "bound_socket env ep s = (Inr h, s') \<Longrightarrow>
   h = next_handle s \<and> next_handle s' = Suc h \<and> may_bind env ep \<and>
   handles s' =
     (handles s)(h \<mapsto> \<lparr>local_endpoint = Some ep, remote_endpoint = None, options = []\<rparr>)"
  by (auto simp: bound_socket_def socket_bind_def modify_def
      split: prod.splits sum.splits if_splits dest!: socket_open_Inr)

lemma bound_socket_Inl:
  "bound_socket env ep s = (Inl e, s') \<Longrightarrow> fresh_above s \<Longrightarrow> handles s' = handles s"
  by (auto simp: bound_socket_def socket_bind_def socket_close_def fresh_above_def
      split: prod.splits sum.splits if_splits dest!: socket_open_Inr socket_open_Inl)

lemma socket_connect_other:
  "socket_connect env h ep s = (r, s') \<Longrightarrow>
   next_handle s' = next_handle s \<and> (\<forall>k. k \<noteq> h \<longrightarrow> handles s' k = handles s k)"
  by (auto simp: socket_connect_def modify_handles modify_next split: if_splits)

lemma socket_connect_Inr:
  "socket_connect env h ep s = (Inr u, s') \<Longrightarrow> handles s h = Some k \<Longrightarrow>
   may_connect env ep \<and> handles s' h = Some (k\<lparr>remote_endpoint := Some ep\<rparr>)"
  by (auto simp: socket_connect_def modify_handles split: if_splits)

lemma destroy_members_handles:
  "handles (destroy_members this s) k =
     (if server_socket this = Some k \<or> client_socket this = Some k then None else handles s k)"
  by (auto simp: destroy_members_def release_def socket_close_def split: option.splits)

subsection \<open>The constructor's body\<close>

text \<open>
  Wherever the body stops, destroying the members it has set leaves the open handles as
  they were before the constructor was called.
\<close>

lemma construct_body_unwound:
  assumes "construct_body env sa ca p srx stx crx ctx this s = (r, this', s')"
    and "fresh_above s" and "server_socket this = None" and "client_socket this = None"
  shows "handles (destroy_members this' s') = handles s"
proof (rule ext)
  fix k
  from assms(2)
  have f: "handles s (next_handle s) = None" "handles s (Suc (next_handle s)) = None"
    by (simp_all add: fresh_aboveD)
  from assms f show "handles (destroy_members this' s') k = handles s k"
    by (auto simp: destroy_members_handles construct_body_def Let_def
        split: list.splits prod.splits sum.splits
        dest!: bound_socket_Inr bound_socket_Inl socket_open_Inr socket_open_Inl
           resize_buffs_other socket_connect_other)
qed

text \<open>
  When the body returns, both names resolved, \<^verbatim>\<open>bind\<close> and \<^verbatim>\<open>connect\<close> succeeded, and
  the two sockets are open with the endpoints and options the body gave them.
\<close>

lemma construct_body_Inr:
  assumes "construct_body env sa ca p srx stx crx ctx this s = (Inr u, this', s')"
  shows "\<exists>ep eps ep' eps'. resolve env sa p = ep # eps \<and> resolve env ca p = ep' # eps' \<and>
     may_bind env ep \<and> may_connect env ep' \<and>
     this' = this\<lparr>server_socket := Some (next_handle s),
                  client_socket := Some (Suc (next_handle s))\<rparr> \<and>
     handles s' (next_handle s) =
       Some \<lparr>local_endpoint = Some ep, remote_endpoint = None,
             options = (if srx \<noteq> 0 then [receive_buffer_size (int_of_size_t srx)] else [])
                     @ (if stx \<noteq> 0 then [send_buffer_size (int_of_size_t stx)] else [])\<rparr> \<and>
     handles s' (Suc (next_handle s)) =
       Some \<lparr>local_endpoint = None, remote_endpoint = Some ep',
             options = (if crx \<noteq> 0 then [receive_buffer_size (int_of_size_t crx)] else [])
                     @ (if ctx \<noteq> 0 then [send_buffer_size (int_of_size_t ctx)] else [])\<rparr>"
proof -
  from assms obtain ep eps s1 h u1 s2 ep' eps' h' s3 u2 s4 where
    r1: "resolve env sa p = ep # eps" and
    b: "bound_socket env ep s = (Inr h, s1)" and
    z1: "resize_buffs env h srx stx s1 = (Inr u1, s2)" and
    r2: "resolve env ca p = ep' # eps'" and
    o: "socket_open env s2 = (Inr h', s3)" and
    c: "socket_connect env h' ep' s3 = (Inr u2, s4)" and
    z2: "resize_buffs env h' crx ctx s4 = (Inr u, s')" and
    t: "this' = this\<lparr>server_socket := Some h, client_socket := Some h'\<rparr>"
    by (auto simp: construct_body_def Let_def split: list.splits prod.splits sum.splits)
  from bound_socket_Inr [OF b] have h: "h = next_handle s" and n1: "next_handle s1 = Suc h"
    and mb: "may_bind env ep"
    and h1: "handles s1 h =
      Some \<lparr>local_endpoint = Some ep, remote_endpoint = None, options = []\<rparr>"
    by simp_all
  from resize_buffs_options [OF z1 h1] resize_buffs_other [OF z1] n1
  have n2: "next_handle s2 = Suc h"
    and h2: "handles s2 h = Some \<lparr>local_endpoint = Some ep, remote_endpoint = None,
             options = (if srx \<noteq> 0 then [receive_buffer_size (int_of_size_t srx)] else [])
                     @ (if stx \<noteq> 0 then [send_buffer_size (int_of_size_t stx)] else [])\<rparr>"
    by simp_all
  from socket_open_Inr [OF o] n2 have h': "h' = Suc h"
    and h3: "handles s3 =
      (handles s2)(h' \<mapsto> \<lparr>local_endpoint = None, remote_endpoint = None, options = []\<rparr>)"
    by simp_all
  from h3
  have k3: "handles s3 h' = Some \<lparr>local_endpoint = None, remote_endpoint = None, options = []\<rparr>"
    by simp
  from socket_connect_Inr [OF c k3] have mc: "may_connect env ep'"
    and k4: "handles s4 h' =
      Some \<lparr>local_endpoint = None, remote_endpoint = Some ep', options = []\<rparr>"
    by simp_all
  from resize_buffs_options [OF z2 k4]
  have k5: "handles s' h' = Some \<lparr>local_endpoint = None, remote_endpoint = Some ep',
             options = (if crx \<noteq> 0 then [receive_buffer_size (int_of_size_t crx)] else [])
                     @ (if ctx \<noteq> 0 then [send_buffer_size (int_of_size_t ctx)] else [])\<rparr>"
    by simp
  from resize_buffs_other [OF z2] socket_connect_other [OF c] h3 h2 h'
  have "handles s' h = handles s2 h" by simp
  with h2 k5 r1 r2 mb mc t h h' show ?thesis by simp
qed

text \<open>When a name does not resolve, or \<^verbatim>\<open>bind\<close> or \<^verbatim>\<open>connect\<close> is refused, the body throws.\<close>

lemma construct_body_refused:
  assumes "resolve env sa p = [] \<or> resolve env ca p = [] \<or>
           (\<exists>ep eps. resolve env sa p = ep # eps \<and> \<not> may_bind env ep) \<or>
           (\<exists>ep eps. resolve env ca p = ep # eps \<and> \<not> may_connect env ep)"
  shows "\<exists>e this' s'. construct_body env sa ca p srx stx crx ctx this s = (Inl e, this', s')"
proof -
  obtain r this' s' where c: "construct_body env sa ca p srx stx crx ctx this s = (r, this', s')"
    by (cases "construct_body env sa ca p srx stx crx ctx this s") auto
  show ?thesis
  proof (cases r)
    case (Inl e)
    with c show ?thesis by blast
  next
    case (Inr u)
    with c construct_body_Inr [of env sa ca p srx stx crx ctx this s u this' s'] assms
    show ?thesis by auto
  qed
qed

text \<open>
  An example: the server address resolves and the server socket is opened and bound, then
  the client address does not resolve. The exception reaches the caller and no handle is
  left open.
\<close>

lemma construction_example:
  "udp_relay_type
        \<lparr>resolve = (\<lambda>host service. if host = ''0.0.0.0'' then [Endpoint 0 49152] else []),
         may_open = (\<lambda>h. True), may_bind = (\<lambda>ep. True), may_connect = (\<lambda>ep. True),
         may_set = (\<lambda>h opt. True)\<rparr>
        ''0.0.0.0'' ''nonesuch'' ''49152'' 0 1048576 50000000 0
        \<lparr>handles = Map.empty, next_handle = 0\<rparr> =
     (Inl resolve_error, \<lparr>handles = Map.empty, next_handle = 1\<rparr>)"
  by (simp add: udp_relay_type_def construct_body_def bound_socket_def socket_open_def
      socket_bind_def resize_buffs_def set_option_def modify_def destroy_members_def release_def
      socket_close_def)

section \<open>The claims about construction\<close>

text \<open>
  Claim C5. If resolving the server address or the client address fails, or \<^verbatim>\<open>bind\<close> of
  the server socket or \<^verbatim>\<open>connect\<close> of the client socket is refused, the constructor ends
  with an exception and returns no object, and the sockets it had opened are closed by the
  time the exception reaches the caller: the open handles are those from before the call.
\<close>

theorem construction_failure_releases_sockets:
  assumes "fresh_above s"
    and "resolve env server_addr port' = [] \<or> resolve env client_addr port' = [] \<or>
         (\<exists>ep eps. resolve env server_addr port' = ep # eps \<and> \<not> may_bind env ep) \<or>
         (\<exists>ep eps. resolve env client_addr port' = ep # eps \<and> \<not> may_connect env ep)"
  shows "\<exists>e s'. udp_relay_type env server_addr client_addr port'
                    server_rx_size server_tx_size client_rx_size client_tx_size s = (Inl e, s') \<and>
                 handles s' = handles s"
proof -
  let ?this = "\<lparr>port = port', server_socket = None, client_socket = None\<rparr>"
  from construct_body_refused [OF assms(2)] obtain e this' s1 where
    c: "construct_body env server_addr client_addr port'
          server_rx_size server_tx_size client_rx_size client_tx_size ?this s = (Inl e, this', s1)"
    by blast
  from construct_body_unwound [OF c assms(1)]
  have "handles (destroy_members this' s1) = handles s" by simp
  with c show ?thesis by (simp add: udp_relay_type_def)
qed

theorem construction_failure_releases_sockets_witness:
  "fresh_above \<lparr>handles = Map.empty, next_handle = 0\<rparr> \<and>
   resolve \<lparr>resolve = (\<lambda>host service. if host = ''0.0.0.0'' then [Endpoint 0 49152] else []),
            may_open = (\<lambda>h. True), may_bind = (\<lambda>ep. True), may_connect = (\<lambda>ep. True),
            may_set = (\<lambda>h opt. True)\<rparr> ''nonesuch'' ''49152'' = [] \<and>
   (\<exists>e s'. udp_relay_type
        \<lparr>resolve = (\<lambda>host service. if host = ''0.0.0.0'' then [Endpoint 0 49152] else []),
         may_open = (\<lambda>h. True), may_bind = (\<lambda>ep. True), may_connect = (\<lambda>ep. True),
         may_set = (\<lambda>h opt. True)\<rparr>
        ''0.0.0.0'' ''nonesuch'' ''49152'' 0 1048576 50000000 0
        \<lparr>handles = Map.empty, next_handle = 0\<rparr> = (Inl e, s') \<and>
      handles s' = Map.empty)"
  using construction_failure_releases_sockets
    [of "\<lparr>handles = Map.empty, next_handle = 0\<rparr>"
      "\<lparr>resolve = (\<lambda>host service. if host = ''0.0.0.0'' then [Endpoint 0 49152] else []),
        may_open = (\<lambda>h. True), may_bind = (\<lambda>ep. True), may_connect = (\<lambda>ep. True),
        may_set = (\<lambda>h opt. True)\<rparr>"
      "''0.0.0.0''" "''49152''" "''nonesuch''" 0 1048576 50000000 0]
  by (simp add: fresh_above_def)

text \<open>
  Claim C6 says that a size other than 0 sets the buffer size option of exactly that size.
  The options hold an \<^verbatim>\<open>int\<close>, so a size that does not fit is changed on the way: with
  \<open>server_rx_size = 4294967301\<close>, which is \<open>2 ^ 32 + 5\<close>, the option set on the server
  socket asks for a receive buffer of 5 bytes.
\<close>

theorem buffer_hint_narrowed_counterexample:
  "udp_relay_type
     \<lparr>resolve = (\<lambda>host service. if host = ''0.0.0.0'' then [Endpoint 0 49156]
                                  else [Endpoint 167772162 49156]),
      may_open = (\<lambda>h. True), may_bind = (\<lambda>ep. True), may_connect = (\<lambda>ep. True),
      may_set = (\<lambda>h opt. True)\<rparr>
     ''0.0.0.0'' ''10.0.0.2'' ''49156'' 4294967301 0 0 0
     \<lparr>handles = Map.empty, next_handle = 0\<rparr> =
   (Inr \<lparr>port = ''49156'', server_socket = Some 0, client_socket = Some 1\<rparr>,
    \<lparr>handles =
       [0 \<mapsto> \<lparr>local_endpoint = Some (Endpoint 0 49156), remote_endpoint = None,
               options = [receive_buffer_size 5]\<rparr>,
        1 \<mapsto> \<lparr>local_endpoint = None, remote_endpoint = Some (Endpoint 167772162 49156),
               options = []\<rparr>],
     next_handle = 2\<rparr>) \<and>
   option_value (receive_buffer_size 5) = 5 \<and>
   option_value (receive_buffer_size 5) \<noteq> 4294967301"
proof -
  have n: "int_of_size_t 4294967301 = 5"
    by (simp add: int_of_size_t_def)
  show ?thesis
    by (simp add: udp_relay_type_def construct_body_def bound_socket_def socket_open_def
        socket_bind_def socket_connect_def resize_buffs_def set_option_def modify_def n)
qed

text \<open>
  Claim C6, as the code has it. When the constructor returns, the options set on the server
  socket are those of \<open>server_rx_size\<close> and \<open>server_tx_size\<close>, and the options set on
  the client socket are those of \<open>client_rx_size\<close> and \<open>client_tx_size\<close>: a size of 0
  sets no option, and a size other than 0 sets the receive or send buffer size option with
  that size converted to \<^verbatim>\<open>int\<close>. The option asks for exactly that size when the size is
  below \<open>2 ^ 31\<close>; for a larger size it asks for the low 32 bits read as a signed number.
\<close>

theorem buffer_hints_applied:
  assumes "udp_relay_type env server_addr client_addr port'
             server_rx_size server_tx_size client_rx_size client_tx_size s = (Inr this, s')"
  shows "server_socket this \<noteq> client_socket this \<and>
         map_option options (Option.bind (server_socket this) (handles s')) =
           Some ((if server_rx_size \<noteq> 0
                  then [receive_buffer_size (int_of_size_t server_rx_size)] else [])
               @ (if server_tx_size \<noteq> 0
                  then [send_buffer_size (int_of_size_t server_tx_size)] else [])) \<and>
         map_option options (Option.bind (client_socket this) (handles s')) =
           Some ((if client_rx_size \<noteq> 0
                  then [receive_buffer_size (int_of_size_t client_rx_size)] else [])
               @ (if client_tx_size \<noteq> 0
                  then [send_buffer_size (int_of_size_t client_tx_size)] else [])) \<and>
         (\<forall>n. n < 2 ^ 31 \<longrightarrow>
            option_value (receive_buffer_size (int_of_size_t n)) = uint n \<and>
            option_value (send_buffer_size (int_of_size_t n)) = uint n)"
proof -
  let ?this = "\<lparr>port = port', server_socket = None, client_socket = None\<rparr>"
  from assms obtain u where
    c: "construct_body env server_addr client_addr port'
          server_rx_size server_tx_size client_rx_size client_tx_size ?this s = (Inr u, this, s')"
    by (auto simp: udp_relay_type_def split: prod.splits sum.splits)
  have "\<forall>n. n < 2 ^ 31 \<longrightarrow>
            option_value (receive_buffer_size (int_of_size_t n)) = uint n \<and>
            option_value (send_buffer_size (int_of_size_t n)) = uint n"
    by (simp add: int_of_size_t_exact)
  with construct_body_Inr [OF c] show ?thesis by auto
qed

theorem buffer_hints_applied_witness:
  "\<exists>this s'.
     udp_relay_type
       \<lparr>resolve = (\<lambda>host service. if host = ''0.0.0.0'' then [Endpoint 0 49156]
                                    else [Endpoint 167772162 49156]),
        may_open = (\<lambda>h. True), may_bind = (\<lambda>ep. True), may_connect = (\<lambda>ep. True),
        may_set = (\<lambda>h opt. True)\<rparr>
       ''0.0.0.0'' ''10.0.0.2'' ''49156'' 0 1048576 50000000 0
       \<lparr>handles = Map.empty, next_handle = 0\<rparr> = (Inr this, s') \<and>
     server_socket this \<noteq> client_socket this \<and>
     map_option options (Option.bind (server_socket this) (handles s')) =
       Some [send_buffer_size 1048576] \<and>
     map_option options (Option.bind (client_socket this) (handles s')) =
       Some [receive_buffer_size 50000000] \<and>
     option_value (send_buffer_size (int_of_size_t 1048576)) = 1048576 \<and>
     option_value (receive_buffer_size (int_of_size_t 50000000)) = 50000000"
proof -
  have h: "udp_relay_type
     \<lparr>resolve = (\<lambda>host service. if host = ''0.0.0.0'' then [Endpoint 0 49156]
                                  else [Endpoint 167772162 49156]),
      may_open = (\<lambda>h. True), may_bind = (\<lambda>ep. True), may_connect = (\<lambda>ep. True),
      may_set = (\<lambda>h opt. True)\<rparr>
     ''0.0.0.0'' ''10.0.0.2'' ''49156'' 0 1048576 50000000 0
     \<lparr>handles = Map.empty, next_handle = 0\<rparr> =
   (Inr \<lparr>port = ''49156'', server_socket = Some 0, client_socket = Some 1\<rparr>,
    \<lparr>handles =
       [0 \<mapsto> \<lparr>local_endpoint = Some (Endpoint 0 49156), remote_endpoint = None,
               options = [send_buffer_size 1048576]\<rparr>,
        1 \<mapsto> \<lparr>local_endpoint = None, remote_endpoint = Some (Endpoint 167772162 49156),
               options = [receive_buffer_size 50000000]\<rparr>],
     next_handle = 2\<rparr>)"
    by (simp add: udp_relay_type_def construct_body_def bound_socket_def socket_open_def
        socket_bind_def socket_connect_def resize_buffs_def set_option_def modify_def
        int_of_size_t_def)
  from buffer_hints_applied [OF h]
  have "server_socket \<lparr>port = ''49156'', server_socket = Some 0, client_socket = Some 1\<rparr> \<noteq>
          client_socket \<lparr>port = ''49156'', server_socket = Some 0, client_socket = Some 1\<rparr> \<and>
        option_value (send_buffer_size (int_of_size_t 1048576)) = uint (1048576 :: 64 word) \<and>
        option_value (receive_buffer_size (int_of_size_t 50000000)) = uint (50000000 :: 64 word)"
    by simp
  with h show ?thesis
    by (intro exI [of _ "\<lparr>port = ''49156'', server_socket = Some 0, client_socket = Some 1\<rparr>"]
          exI [of _ "\<lparr>handles =
       [0 \<mapsto> \<lparr>local_endpoint = Some (Endpoint 0 49156), remote_endpoint = None,
               options = [send_buffer_size 1048576]\<rparr>,
        1 \<mapsto> \<lparr>local_endpoint = None, remote_endpoint = Some (Endpoint 167772162 49156),
               options = [receive_buffer_size 50000000]\<rparr>],
     next_handle = 2\<rparr>"])
       simp
qed

end
